theory Spec2Isabelle
  imports Complex_Main
begin

section \<open>Data model\<close>

text \<open>
  The list coordinator is the React hook \<open>usePokemonList\<close> (hooks/usePokemonList.ts);
  pages/Home.tsx holds an older inline copy of the same logic. Both talk to the browser's
  \<open>localStorage\<close> through helpers/localStorage.ts and receive pages from the RTK Query
  hook \<open>useGetPokemonListQuery\<close>.

  JavaScript numbers are modelled by \<open>int\<close> wherever the code only produces integers
  (lengths, offsets, \<open>Date.now()\<close>); the model is exact for safe integers
  (\<open>|n| < 2^53\<close>), beyond which a double rounds. A \<open>jsnum\<close> is what the
  \<open>id\<close> of a list entry can hold: the result of \<open>parseInt\<close>, which is \<open>NaN\<close> or
  an integer, or \<open>null\<close>, which is what a \<open>NaN\<close> written to the cache is read back
  as. HOL equality on \<open>jsnum\<close> is the SameValueZero comparison a JavaScript \<open>Set\<close>
  uses (\<open>NaN\<close> equals \<open>NaN\<close> and differs from \<open>null\<close>).
  Strings are lists of 8-bit characters (code units below 256).
\<close>

datatype jsnum = NaN | Num int | Null

text \<open>helpers/localStorage.ts: \<open>interface CachedPokemon { id: number; name: string }\<close>.
  The field \<open>id\<close> is written \<open>id'\<close> (\<open>id\<close> is HOL's identity function).\<close>

record CachedPokemon =
  id' :: jsnum
  name :: string

text \<open>helpers/localStorage.ts: \<open>interface PaginationState\<close>.\<close>

record PaginationState =
  currentPage :: int
  totalLoaded :: int
  hasMore :: bool
  lastFetchTime :: int

text \<open>
  Modelled from the spec: the declarations \<open>NamedAPIResource\<close> and
  \<open>PokemonListResponse\<close> of types/api.ts are not among the sources. The spec's
  ResultPage is "an ordered sequence of named resource references (name, url) plus a next
  cursor (string URL or null) and a count total"; the tests build responses with the
  fields \<open>results\<close>, \<open>next\<close>, \<open>previous\<close>, \<open>count\<close>. \<open>None\<close> is \<open>null\<close>.
  The resource's \<open>name\<close> is written \<open>resource_name\<close>, apart from the
  \<open>name\<close> of a \<open>CachedPokemon\<close>.
\<close>

record NamedAPIResource =
  resource_name :: string
  url :: string

record PokemonListResponse =
  count :: int
  "next" :: "string option"
  previous :: "string option"
  results :: "NamedAPIResource list"

text \<open>The state cells of the hook (\<open>useState\<close>), in declaration order.\<close>

record hook_state =
  allPokemon :: "CachedPokemon list"
  paginationState :: PaginationState
  currentOffset :: int
  skipQuery :: bool
  isInitialLoading :: bool
  error :: "string option"
  isLoadingMore :: bool

definition ITEMS_PER_PAGE :: int where
  "ITEMS_PER_PAGE = 20"


definition zeroPagination :: PaginationState where
  "zeroPagination = \<lparr>currentPage = 0, totalLoaded = 0, hasMore = True, lastFetchTime = 0\<rparr>"

text \<open>The initial values passed to \<open>useState\<close>.\<close>

definition initial_state :: hook_state where
  "initial_state =
     \<lparr>allPokemon = [], paginationState = zeroPagination, currentOffset = 0,
      skipQuery = True, isInitialLoading = True, error = None, isLoadingMore = False\<rparr>"

section \<open>Parsing an id out of a resource url\<close>

text \<open>\<open>String.prototype.split(sep)\<close> for a one-character separator: the pieces between
  the separators, empty pieces included; never an empty array.\<close>

fun String_split :: "char \<Rightarrow> string \<Rightarrow> string list" where
  "String_split sep [] = [[]]"
| "String_split sep (c # cs) =
     (if c = sep then [] # String_split sep cs
      else (case String_split sep cs of
              [] \<Rightarrow> [[c]]
            | p # ps \<Rightarrow> (c # p) # ps))"

text \<open>Array indexing \<open>xs[i]\<close>: \<open>undefined\<close> (here \<open>None\<close>) out of range.\<close>

definition js_index :: "'a list \<Rightarrow> int \<Rightarrow> 'a option" where
  "js_index xs i = (if 0 \<le> i \<and> i < int (length xs) then Some (xs ! nat i) else None)"

definition is_digit :: "char \<Rightarrow> bool" where
  "is_digit c \<longleftrightarrow> c \<in> set ''0123456789''"

definition digit_val :: "char \<Rightarrow> nat" where
  "digit_val c = of_char c - 48"

definition is_hex_digit :: "char \<Rightarrow> bool" where
  "is_hex_digit c \<longleftrightarrow> c \<in> set ''0123456789abcdefABCDEF''"

definition hex_val :: "char \<Rightarrow> nat" where
  "hex_val c =
     (if is_digit c then of_char c - 48
      else if c \<in> set ''abcdef'' then of_char c - 87
      else of_char c - 55)"

text \<open>White space that \<open>parseInt\<close> skips: TAB, LF, VT, FF, CR, SP and NBSP (the code
  units below 256 of StrWhiteSpaceChar).\<close>

definition is_js_space :: "char \<Rightarrow> bool" where
  "is_js_space c \<longleftrightarrow> (of_char c :: nat) \<in> {9, 10, 11, 12, 13, 32, 160}"

definition radix_value :: "nat \<Rightarrow> (char \<Rightarrow> nat) \<Rightarrow> string \<Rightarrow> nat" where
  "radix_value r dv ds = foldl (\<lambda>acc c. acc * r + dv c) 0 ds"

text \<open>
  \<open>parseInt(s)\<close> with no radix: skip leading white space, read a sign, switch to radix
  16 after \<open>0x\<close> or \<open>0X\<close>, then read the longest run of digits; \<open>NaN\<close> when that run
  is empty. Whatever follows the digits is ignored.
\<close>

definition parseInt_digits :: "string \<Rightarrow> jsnum" where
  "parseInt_digits s =
     (case s of
        c0 # x # hs \<Rightarrow>
          if c0 = CHR ''0'' \<and> (x = CHR ''x'' \<or> x = CHR ''X'')
          then (case takeWhile is_hex_digit hs of
                  [] \<Rightarrow> NaN
                | ds \<Rightarrow> Num (int (radix_value 16 hex_val ds)))
          else (case takeWhile is_digit s of
                  [] \<Rightarrow> NaN
                | ds \<Rightarrow> Num (int (radix_value 10 digit_val ds)))
      | _ \<Rightarrow> (case takeWhile is_digit s of
                  [] \<Rightarrow> NaN
                | ds \<Rightarrow> Num (int (radix_value 10 digit_val ds))))"

definition negate :: "jsnum \<Rightarrow> jsnum" where
  "negate v = (case v of Num n \<Rightarrow> Num (- n) | _ \<Rightarrow> v)"

definition parseInt_string :: "string \<Rightarrow> jsnum" where
  "parseInt_string s =
     (case dropWhile is_js_space s of
        [] \<Rightarrow> NaN
      | c # cs \<Rightarrow>
          if c = CHR ''-'' then negate (parseInt_digits cs)
          else if c = CHR ''+'' then parseInt_digits cs
          else parseInt_digits (c # cs))"

text \<open>The argument may be \<open>undefined\<close>, which \<open>parseInt\<close> reads as the string
  "undefined": no digits, so \<open>NaN\<close>.\<close>

definition parseInt :: "string option \<Rightarrow> jsnum" where
  "parseInt arg = (case arg of None \<Rightarrow> NaN | Some s \<Rightarrow> parseInt_string s)"

text \<open>The mapping function of the "Handle query result" effect:
  \<^verbatim>\<open>
  const urlParts = result.url.split("/");
  const id = parseInt(urlParts[urlParts.length - 2]);
  return { id, name: result.name };
  \<close>\<close>

definition toCachedPokemon :: "NamedAPIResource \<Rightarrow> CachedPokemon" where
  "toCachedPokemon result =
     (let urlParts = String_split CHR ''/'' (url result);
          i = parseInt (js_index urlParts (int (length urlParts) - 2))
      in \<lparr>id' = i, name = resource_name result\<rparr>)"

section \<open>JSON text\<close>

text \<open>
  The values the helpers serialise: \<open>JSON.stringify\<close> of a \<open>PaginationState\<close> and of
  a \<open>CachedPokemon[]\<close>. A \<open>json\<close> tree stands for the JavaScript value; numbers are
  integers (the only numbers the coordinator writes), and \<open>NaN\<close> is written as
  \<open>null\<close>, as \<open>JSON.stringify\<close> does.
\<close>

datatype json =
    JNull
  | JBool bool
  | JNum int
  | JStr string
  | JArr "json list"
  | JObj "(string \<times> json) list"

definition digit_char :: "nat \<Rightarrow> char" where
  "digit_char d = ''0123456789abcdef'' ! d"

fun show_nat :: "nat \<Rightarrow> string" where
  "show_nat n = (if n < 10 then [digit_char n] else show_nat (n div 10) @ [digit_char (n mod 10)])"

declare show_nat.simps [simp del]

definition show_int :: "int \<Rightarrow> string" where
  "show_int i = (if i < 0 then CHR ''-'' # show_nat (nat (- i)) else show_nat (nat i))"

text \<open>QuoteJSONString: the short escapes, \<open>\u00xx\<close> for the other control characters,
  every other character as it is.\<close>

definition quote_char :: "char \<Rightarrow> string" where
  "quote_char c =
     (let n = (of_char c :: nat) in
      if n = 8 then [CHR 0x5C, CHR ''b'']
      else if n = 9 then [CHR 0x5C, CHR ''t'']
      else if n = 10 then [CHR 0x5C, CHR ''n'']
      else if n = 12 then [CHR 0x5C, CHR ''f'']
      else if n = 13 then [CHR 0x5C, CHR ''r'']
      else if n = 34 then [CHR 0x5C, CHR 0x22]
      else if n = 92 then [CHR 0x5C, CHR 0x5C]
      else if n < 32 then [CHR 0x5C, CHR ''u'', CHR ''0'', CHR ''0'',
                            digit_char (n div 16), digit_char (n mod 16)]
      else [c])"

definition quote :: "string \<Rightarrow> string" where
  "quote s = [CHR 0x22] @ concat (map quote_char s) @ [CHR 0x22]"

fun join :: "string \<Rightarrow> string list \<Rightarrow> string" where
  "join sep [] = []"
| "join sep [x] = x"
| "join sep (x # y # ys) = x @ sep @ join sep (y # ys)"

fun JSON_stringify :: "json \<Rightarrow> string" where
  "JSON_stringify JNull = ''null''"
| "JSON_stringify (JBool b) = (if b then ''true'' else ''false'')"
| "JSON_stringify (JNum n) = show_int n"
| "JSON_stringify (JStr s) = quote s"
| "JSON_stringify (JArr vs) = ''['' @ join '','' (map JSON_stringify vs) @ '']''"
| "JSON_stringify (JObj ms) =
     ''{'' @ join '','' (map (\<lambda>(k, v). quote k @ '':'' @ JSON_stringify v) ms) @ ''}''"

definition json_of_jsnum :: "jsnum \<Rightarrow> json" where
  "json_of_jsnum v = (case v of Num n \<Rightarrow> JNum n | _ \<Rightarrow> JNull)"

text \<open>Property order is creation order: \<open>{ id, name }\<close> and
  \<open>{ currentPage, totalLoaded, hasMore, lastFetchTime }\<close>.\<close>

definition json_of_CachedPokemon :: "CachedPokemon \<Rightarrow> json" where
  "json_of_CachedPokemon p = JObj [(''id'', json_of_jsnum (id' p)), (''name'', JStr (name p))]"

definition json_of_PaginationState :: "PaginationState \<Rightarrow> json" where
  "json_of_PaginationState s =
     JObj [(''currentPage'', JNum (currentPage s)),
           (''totalLoaded'', JNum (totalLoaded s)),
           (''hasMore'', JBool (hasMore s)),
           (''lastFetchTime'', JNum (lastFetchTime s))]"

section \<open>Reading JSON text\<close>

text \<open>
  \<open>JSON.parse\<close> returns an untyped JavaScript value, here a \<open>js_value\<close>: a lexer
  from characters to tokens and a parser over the tokens. Numbers are exact rationals
  (a double rounds, overflows and underflows), strings are lists of UTF-16 code units (an escape
  \<open>\uXXXX\<close> can name a unit above 255). The members of an object are kept as the
  text lists them, a repeated key included; \<open>js_get\<close> reads the last one, as the object
  built by \<open>JSON.parse\<close> holds it. A failure to parse is the exception \<open>SyntaxError\<close>.
\<close>

datatype js_error = StorageUnavailable | QuotaExceededError | SyntaxError | TypeError

datatype js_value =
    VNull
  | VBool bool
  | VNumber rat
  | VString "nat list"
  | VArray "js_value list"
  | VObject "(nat list \<times> js_value) list"

text \<open>The code units of a string of the model.\<close>

definition units :: "string \<Rightarrow> nat list" where
  "units s = map of_char s"

text \<open>The JavaScript value a \<open>json\<close> tree stands for.\<close>

fun js_value_of :: "json \<Rightarrow> js_value" where
  "js_value_of JNull = VNull"
| "js_value_of (JBool b) = VBool b"
| "js_value_of (JNum n) = VNumber (of_int n)"
| "js_value_of (JStr s) = VString (units s)"
| "js_value_of (JArr vs) = VArray (map js_value_of vs)"
| "js_value_of (JObj ms) = VObject (map (\<lambda>(k, v). (units k, js_value_of v)) ms)"

text \<open>The character a one-letter escape stands for.\<close>

definition unescape :: "char \<Rightarrow> char option" where
  "unescape e =
     (if e = CHR 0x22 then Some (CHR 0x22)
      else if e = CHR 0x5C then Some (CHR 0x5C)
      else if e = CHR ''/'' then Some (CHR ''/'')
      else if e = CHR ''b'' then Some (CHR 0x08)
      else if e = CHR ''f'' then Some (CHR 0x0C)
      else if e = CHR ''n'' then Some (CHR 0x0A)
      else if e = CHR ''r'' then Some (CHR 0x0D)
      else if e = CHR ''t'' then Some (CHR 0x09)
      else None)"

text \<open>One escape sequence, after the backslash: the code unit it stands for and the
  number of characters it takes.\<close>

definition lex_escape :: "string \<Rightarrow> (nat \<times> nat) option" where
  "lex_escape s =
     (case s of
        [] \<Rightarrow> None
      | e # hs \<Rightarrow>
          if e = CHR ''u'' then
            (let ds = take 4 hs in
             if length ds = 4 \<and> list_all is_hex_digit ds
             then Some (radix_value 16 hex_val ds, 5)
             else None)
          else map_option (\<lambda>ch. (of_char ch, 1)) (unescape e))"

text \<open>A string, after its opening quote: its code units and the text after the closing
  quote. A raw control character is an error.\<close>

fun lex_string :: "string \<Rightarrow> (nat list \<times> string) option" where
  "lex_string [] = None"
| "lex_string (c # cs) =
     (if c = CHR 0x22 then Some ([], cs)
      else if c = CHR 0x5C then
        (case lex_escape cs of
           None \<Rightarrow> None
         | Some (u, k) \<Rightarrow>
             (case lex_string (drop k cs) of
                None \<Rightarrow> None
              | Some (s, rest) \<Rightarrow> Some (u # s, rest)))
      else if (of_char c :: nat) < 32 then None
      else (case lex_string cs of
              None \<Rightarrow> None
            | Some (s, rest) \<Rightarrow> Some (of_char c # s, rest)))"

lemma lex_string_shorter: "lex_string s = Some (str, rest) \<Longrightarrow> length rest < length s"
proof (induction s arbitrary: str rest rule: lex_string.induct)
  case 1
  then show ?case by simp
next
  case (2 c cs)
  show ?case
  proof (cases "c = CHR 0x22")
    case True
    with "2.prems" show ?thesis by simp
  next
    case False
    note nq = this
    show ?thesis
    proof (cases "c = CHR 0x5C")
      case True
      with nq "2.prems" obtain u k s where e: "lex_escape cs = Some (u, k)"
        and r: "lex_string (drop k cs) = Some (s, rest)"
        by (auto split: option.splits)
      from "2.IH"(1) [OF nq True e refl r] have "length rest < length (drop k cs)" .
      then show ?thesis by simp
    next
      case False
      with nq "2.prems" obtain s where r: "lex_string cs = Some (s, rest)"
        and "\<not> (of_char c :: nat) < 32"
        by (auto split: option.splits if_splits)
      from "2.IH"(2) [OF nq False this(2) r] show ?thesis by simp
    qed
  qed
qed

text \<open>The tokens of JSON text. A number is an optional minus sign, a run of digits with
  no leading zero, an optional fraction and an optional exponent; \<open>true\<close>, \<open>false\<close>
  and \<open>null\<close> are spelled out.\<close>

datatype token =
    TLBrace | TRBrace | TLBracket | TRBracket | TComma | TColon
  | TString "nat list" | TNumber rat | TTrue | TFalse | TNull

definition is_json_space :: "char \<Rightarrow> bool" where
  "is_json_space c \<longleftrightarrow> (of_char c :: nat) \<in> {9, 10, 13, 32}"

definition lex_nat :: "string \<Rightarrow> (nat \<times> string) option" where
  "lex_nat s =
     (let ds = takeWhile is_digit s; rest = dropWhile is_digit s in
      if ds = [] then None
      else if hd ds = CHR ''0'' \<and> 1 < length ds then None
      else Some (radix_value 10 digit_val ds, rest))"

text \<open>A fraction \<open>.ddd\<close>, when there is one: its value.\<close>

definition lex_fraction :: "string \<Rightarrow> (rat \<times> string) option" where
  "lex_fraction s =
     (case s of
        [] \<Rightarrow> Some (0, [])
      | c # cs \<Rightarrow>
          if c = CHR ''.'' then
            (let ds = takeWhile is_digit cs in
             if ds = [] then None
             else Some (of_nat (radix_value 10 digit_val ds) / 10 ^ length ds,
                        dropWhile is_digit cs))
          else Some (0, s))"

text \<open>An exponent \<open>e\<plusminus>ddd\<close>, when there is one.\<close>

definition lex_exponent :: "string \<Rightarrow> (int \<times> string) option" where
  "lex_exponent s =
     (case s of
        [] \<Rightarrow> Some (0, [])
      | c # cs \<Rightarrow>
          if c = CHR ''e'' \<or> c = CHR ''E'' then
            (let neg = (cs \<noteq> [] \<and> hd cs = CHR ''-'');
                 ds' = (if cs \<noteq> [] \<and> (hd cs = CHR ''-'' \<or> hd cs = CHR ''+'') then tl cs else cs);
                 ds = takeWhile is_digit ds'
             in if ds = [] then None
                else Some (if neg then - int (radix_value 10 digit_val ds)
                           else int (radix_value 10 digit_val ds),
                           dropWhile is_digit ds'))
          else Some (0, s))"

definition scale10 :: "rat \<Rightarrow> int \<Rightarrow> rat" where
  "scale10 q e = (if 0 \<le> e then q * 10 ^ nat e else q / 10 ^ nat (- e))"

definition lex_unsigned :: "string \<Rightarrow> (rat \<times> string) option" where
  "lex_unsigned s =
     (case lex_nat s of
        None \<Rightarrow> None
      | Some (n, r1) \<Rightarrow>
          (case lex_fraction r1 of
             None \<Rightarrow> None
           | Some (f, r2) \<Rightarrow>
               (case lex_exponent r2 of
                  None \<Rightarrow> None
                | Some (e, r3) \<Rightarrow> Some (scale10 (of_nat n + f) e, r3))))"

definition lex_number :: "string \<Rightarrow> (rat \<times> string) option" where
  "lex_number s =
     (case s of
        [] \<Rightarrow> None
      | c # cs \<Rightarrow>
          if c = CHR ''-'' then
            (case lex_unsigned cs of None \<Rightarrow> None | Some (q, rest) \<Rightarrow> Some (- q, rest))
          else lex_unsigned s)"

definition lex_word :: "string \<Rightarrow> token \<Rightarrow> string \<Rightarrow> (token \<times> string) option" where
  "lex_word w t s = (if take (length w) s = w then Some (t, drop (length w) s) else None)"

definition punctuation :: "char \<Rightarrow> token option" where
  "punctuation c = map_of
     [(CHR ''{'', TLBrace), (CHR ''}'', TRBrace), (CHR ''['', TLBracket),
      (CHR '']'', TRBracket), (CHR '','', TComma), (CHR '':'', TColon)] c"

definition lex_token :: "char \<Rightarrow> string \<Rightarrow> (token \<times> string) option" where
  "lex_token c cs =
     (case punctuation c of
        Some t \<Rightarrow> Some (t, cs)
      | None \<Rightarrow>
          if c = CHR 0x22 then map_option (\<lambda>(s, rest). (TString s, rest)) (lex_string cs)
          else if c = CHR ''t'' then lex_word ''rue'' TTrue cs
          else if c = CHR ''f'' then lex_word ''alse'' TFalse cs
          else if c = CHR ''n'' then lex_word ''ull'' TNull cs
          else map_option (\<lambda>(n, rest). (TNumber n, rest)) (lex_number (c # cs)))"

lemma lex_nat_shorter: "lex_nat s = Some (n, rest) \<Longrightarrow> length rest < length s"
proof -
  assume a: "lex_nat s = Some (n, rest)"
  then have r: "rest = dropWhile is_digit s" and ne: "takeWhile is_digit s \<noteq> []"
    by (auto simp: lex_nat_def Let_def split: if_splits)
  have "length (takeWhile is_digit s) + length (dropWhile is_digit s) = length s"
    by (metis length_append takeWhile_dropWhile_id)
  with ne r show ?thesis by (cases "takeWhile is_digit s") auto
qed

lemma length_dropWhile_tl: "length (dropWhile P (tl xs)) \<le> length xs"
  by (metis diff_le_self le_trans length_dropWhile_le length_tl)

lemma lex_fraction_le: "lex_fraction s = Some (f, rest) \<Longrightarrow> length rest \<le> length s"
  by (cases s)
     (auto simp: lex_fraction_def Let_def split: if_splits intro: le_SucI length_dropWhile_le)

lemma lex_exponent_le: "lex_exponent s = Some (e, rest) \<Longrightarrow> length rest \<le> length s"
  by (cases s)
     (auto simp: lex_exponent_def Let_def split: if_splits
        intro: le_SucI length_dropWhile_le length_dropWhile_tl)

lemma lex_unsigned_shorter: "lex_unsigned s = Some (q, rest) \<Longrightarrow> length rest < length s"
  by (auto simp: lex_unsigned_def split: option.splits
      dest!: lex_nat_shorter lex_fraction_le lex_exponent_le)

lemma lex_number_shorter: "lex_number s = Some (n, rest) \<Longrightarrow> length rest < length s"
  by (cases s)
     (auto simp: lex_number_def split: if_splits option.splits dest!: lex_unsigned_shorter)

lemma lex_word_shorter: "lex_word w t s = Some (t', rest) \<Longrightarrow> length rest \<le> length s"
  by (auto simp: lex_word_def split: if_splits)

lemma lex_token_shorter:
  assumes "lex_token c cs = Some (t, rest)"
  shows "length rest \<le> length cs"
proof (cases "punctuation c")
  case (Some p)
  with assms show ?thesis by (simp add: lex_token_def)
next
  case None
  note np = this
  consider (str) "c = CHR 0x22" | (tr) "c \<noteq> CHR 0x22" "c = CHR ''t''"
    | (fa) "c \<noteq> CHR 0x22" "c = CHR ''f''" | (nu) "c \<noteq> CHR 0x22" "c = CHR ''n''"
    | (num) "c \<noteq> CHR 0x22" "c \<noteq> CHR ''t''" "c \<noteq> CHR ''f''" "c \<noteq> CHR ''n''"
    by blast
  then show ?thesis
  proof cases
    case str
    with assms np obtain s where "lex_string cs = Some (s, rest)"
      by (auto simp: lex_token_def)
    from lex_string_shorter [OF this] show ?thesis by simp
  next
    case tr
    with assms np have "lex_word ''rue'' TTrue cs = Some (t, rest)" by (simp add: lex_token_def)
    then show ?thesis by (rule lex_word_shorter)
  next
    case fa
    with assms np have "lex_word ''alse'' TFalse cs = Some (t, rest)" by (simp add: lex_token_def)
    then show ?thesis by (rule lex_word_shorter)
  next
    case nu
    with assms np have "lex_word ''ull'' TNull cs = Some (t, rest)" by (simp add: lex_token_def)
    then show ?thesis by (rule lex_word_shorter)
  next
    case num
    with assms np obtain n where "lex_number (c # cs) = Some (n, rest)"
      by (auto simp: lex_token_def)
    from lex_number_shorter [OF this] show ?thesis by simp
  qed
qed

function tokenize :: "string \<Rightarrow> token list option" where
  "tokenize [] = Some []"
| "tokenize (c # cs) =
     (if is_json_space c then tokenize cs
      else (case lex_token c cs of
              None \<Rightarrow> None
            | Some (t, rest) \<Rightarrow> map_option (Cons t) (tokenize rest)))"
  by pat_completeness auto
termination
proof (relation "measure length")
  show "wf (measure length)" by simp
next
  fix c :: char and cs :: string
  show "(cs, c # cs) \<in> measure length" by simp
next
  fix c :: char and cs rest :: string and t :: token and p
  assume "lex_token c cs = Some p" and "(t, rest) = p"
  then have "lex_token c cs = Some (t, rest)" by simp
  from lex_token_shorter [OF this] show "(rest, c # cs) \<in> measure length" by simp
qed

declare tokenize.simps(2) [simp del]

text \<open>The grammar over tokens. \<open>parse_elements\<close> reads the elements of an array after
  its opening bracket, through the closing one; \<open>parse_members\<close> likewise for an object.
  The test on the lengths always succeeds (lemma \<open>parse_shorter\<close>); it is what the
  termination proof rests on.\<close>

function parse_value :: "token list \<Rightarrow> (js_value \<times> token list) option"
  and parse_elements :: "token list \<Rightarrow> (js_value list \<times> token list) option"
  and parse_members :: "token list \<Rightarrow> ((nat list \<times> js_value) list \<times> token list) option" where
  "parse_value ts =
     (case ts of
        [] \<Rightarrow> None
      | t # ts' \<Rightarrow>
          (case t of
             TNull \<Rightarrow> Some (VNull, ts')
           | TTrue \<Rightarrow> Some (VBool True, ts')
           | TFalse \<Rightarrow> Some (VBool False, ts')
           | TNumber n \<Rightarrow> Some (VNumber n, ts')
           | TString s \<Rightarrow> Some (VString s, ts')
           | TLBracket \<Rightarrow>
               if ts' \<noteq> [] \<and> hd ts' = TRBracket then Some (VArray [], tl ts')
               else map_option (\<lambda>(vs, rest). (VArray vs, rest)) (parse_elements ts')
           | TLBrace \<Rightarrow>
               if ts' \<noteq> [] \<and> hd ts' = TRBrace then Some (VObject [], tl ts')
               else map_option (\<lambda>(ms, rest). (VObject ms, rest)) (parse_members ts')
           | _ \<Rightarrow> None))"
| "parse_elements ts =
     (case parse_value ts of
        None \<Rightarrow> None
      | Some (v, rest) \<Rightarrow>
          if length rest < length ts then
            (case rest of
               [] \<Rightarrow> None
             | t # rest' \<Rightarrow>
                 if t = TRBracket then Some ([v], rest')
                 else if t = TComma then
                   map_option (\<lambda>(vs, r). (v # vs, r)) (parse_elements rest')
                 else None)
          else None)"
| "parse_members ts =
     (case ts of
        TString k # TColon # ts' \<Rightarrow>
          (case parse_value ts' of
             None \<Rightarrow> None
           | Some (v, rest) \<Rightarrow>
               if length rest < length ts' then
                 (case rest of
                    [] \<Rightarrow> None
                  | t # rest' \<Rightarrow>
                      if t = TRBrace then Some ([(k, v)], rest')
                      else if t = TComma then
                        map_option (\<lambda>(ms, r). ((k, v) # ms, r)) (parse_members rest')
                      else None)
               else None)
      | _ \<Rightarrow> None)"
  by pat_completeness auto
termination
  by (relation "measure (\<lambda>x. case x of
        Inl ts \<Rightarrow> 2 * length ts
      | Inr (Inl ts) \<Rightarrow> 2 * length ts + 1
      | Inr (Inr ts) \<Rightarrow> 2 * length ts + 1)") auto

declare parse_value.simps [simp del] parse_elements.simps [simp del] parse_members.simps [simp del]

definition JSON_parse :: "string \<Rightarrow> js_error + js_value" where
  "JSON_parse text =
     (case tokenize text of
        None \<Rightarrow> Inl SyntaxError
      | Some ts \<Rightarrow>
          (case parse_value ts of
             None \<Rightarrow> Inl SyntaxError
           | Some (v, rest) \<Rightarrow> if rest = [] then Inr v else Inl SyntaxError))"

lemma parse_shorter:
  "(parse_value ts = Some (v, rest) \<longrightarrow> length rest < length ts)"
  "(parse_elements ts = Some (vs, rest) \<longrightarrow> length rest < length ts)"
  "(parse_members ts = Some (ms, rest) \<longrightarrow> length rest < length ts)"
proof (induction ts and ts and ts arbitrary: v rest and vs rest and ms rest
       rule: parse_value_parse_elements_parse_members.induct)
  case (1 ts)
  show ?case
  proof
    assume a: "parse_value ts = Some (v, rest)"
    then obtain t ts' where ts: "ts = t # ts'" by (cases ts) (auto simp: parse_value.simps)
    show "length rest < length ts"
    proof (cases t)
      case TLBrace
      show ?thesis
      proof (cases "ts' \<noteq> [] \<and> hd ts' = TRBrace")
        case True
        with a ts TLBrace show ?thesis by (cases ts') (auto simp: parse_value.simps)
      next
        case False
        with a ts TLBrace obtain ms0 where "parse_members ts' = Some (ms0, rest)"
          by (auto simp: parse_value.simps)
        with "1.IH"(1) [OF ts TLBrace False, of ms0 rest] ts show ?thesis by simp
      qed
    next
      case TLBracket
      show ?thesis
      proof (cases "ts' \<noteq> [] \<and> hd ts' = TRBracket")
        case True
        with a ts TLBracket show ?thesis by (cases ts') (auto simp: parse_value.simps)
      next
        case False
        with a ts TLBracket obtain vs0 where "parse_elements ts' = Some (vs0, rest)"
          by (auto simp: parse_value.simps)
        with "1.IH"(2) [OF ts TLBracket False, of vs0 rest] ts show ?thesis by simp
      qed
    qed (use a ts in \<open>auto simp: parse_value.simps\<close>)
  qed
next
  case (2 ts)
  show ?case
  proof
    assume a: "parse_elements ts = Some (vs, rest)"
    then obtain v r where pv: "parse_value ts = Some (v, r)" and lt: "length r < length ts"
      by (subst (asm) parse_elements.simps) (auto split: option.splits if_splits)
    from a pv lt obtain t r' where r: "r = t # r'"
      by (subst (asm) parse_elements.simps) (auto split: list.splits)
    show "length rest < length ts"
    proof (cases "t = TRBracket")
      case True
      with a pv lt r have "rest = r'" by (subst (asm) parse_elements.simps) auto
      with lt r show ?thesis by simp
    next
      case False
      with a pv lt r obtain vs' where c: "t = TComma" and pe: "parse_elements r' = Some (vs', rest)"
        by (subst (asm) parse_elements.simps) (auto split: if_splits)
      from "2.IH"(2) [OF pv refl lt r False c, of vs' rest] pe have "length rest < length r'" by simp
      with lt r show ?thesis by simp
    qed
  qed
next
  case (3 ts)
  show ?case
  proof
    assume a: "parse_members ts = Some (ms, rest)"
    then obtain k ts' where ts: "ts = TString k # TColon # ts'"
      by (subst (asm) parse_members.simps) (auto split: list.splits token.splits)
    from a ts obtain v r where pv: "parse_value ts' = Some (v, r)" and lt: "length r < length ts'"
      by (subst (asm) parse_members.simps) (auto split: option.splits if_splits)
    from a ts pv lt obtain t r' where r: "r = t # r'"
      by (subst (asm) parse_members.simps) (auto split: list.splits)
    show "length rest < length ts"
    proof (cases "t = TRBrace")
      case True
      with a ts pv lt r have "rest = r'" by (subst (asm) parse_members.simps) auto
      with lt r ts show ?thesis by simp
    next
      case False
      with a ts pv lt r obtain ms' where c: "t = TComma" and pm: "parse_members r' = Some (ms', rest)"
        by (subst (asm) parse_members.simps) (auto split: if_splits)
      from "3.IH"(2) [OF ts refl refl refl pv refl lt r False c, of ms' rest] pm have "length rest < length r'" by simp
      with lt r ts show ?thesis by simp
    qed
  qed
qed

section \<open>JavaScript values\<close>

















section \<open>Reading a value at its declared type\<close>

text \<open>
  The helpers hand on what \<open>JSON.parse\<close> returned at the types \<open>CachedPokemon[]\<close> and
  \<open>PaginationState\<close> without looking at it. A value has the declared type when it is
  built as the savers build it: an entry holds \<open>id\<close> (an integer, or \<open>null\<close> where the
  hook wrote a \<open>NaN\<close>) and \<open>name\<close>; a pagination state holds its four fields. The
  state cells of the model can hold these values and no others.
\<close>

text \<open>The members an object holds: a repeated key keeps its first place and its last
  value.\<close>

definition define_property ::
  "(nat list \<times> js_value) list \<Rightarrow> nat list \<times> js_value \<Rightarrow> (nat list \<times> js_value) list" where
  "define_property ps kv =
     (if fst kv \<in> set (map fst ps)
      then map (\<lambda>p. if fst p = fst kv then kv else p) ps
      else ps @ [kv])"

definition own_properties :: "(nat list \<times> js_value) list \<Rightarrow> (nat list \<times> js_value) list" where
  "own_properties ms = foldl define_property [] ms"

definition as_int :: "rat \<Rightarrow> int option" where
  "as_int q = (if of_int \<lfloor>q\<rfloor> = q then Some \<lfloor>q\<rfloor> else None)"

definition as_string :: "nat list \<Rightarrow> string option" where
  "as_string s = (if list_all (\<lambda>u. u < 256) s then Some (map char_of s) else None)"

definition as_jsnum :: "js_value \<Rightarrow> jsnum option" where
  "as_jsnum v =
     (case v of
        VNull \<Rightarrow> Some Null
      | VNumber q \<Rightarrow> map_option Num (as_int q)
      | _ \<Rightarrow> None)"

definition as_CachedPokemon :: "js_value \<Rightarrow> CachedPokemon option" where
  "as_CachedPokemon v =
     (case v of
        VObject ms \<Rightarrow>
          (case own_properties ms of
             [(k1, v1), (k2, VString n)] \<Rightarrow>
               if k1 = units ''id'' \<and> k2 = units ''name'' then
                 (case (as_jsnum v1, as_string n) of
                    (Some i, Some s) \<Rightarrow> Some \<lparr>id' = i, name = s\<rparr>
                  | _ \<Rightarrow> None)
               else None
           | _ \<Rightarrow> None)
      | _ \<Rightarrow> None)"

definition as_PokemonList :: "js_value \<Rightarrow> CachedPokemon list option" where
  "as_PokemonList v = (case v of VArray vs \<Rightarrow> those (map as_CachedPokemon vs) | _ \<Rightarrow> None)"

definition as_PaginationState :: "js_value \<Rightarrow> PaginationState option" where
  "as_PaginationState v =
     (case v of
        VObject ms \<Rightarrow>
          (case own_properties ms of
             [(k1, VNumber p), (k2, VNumber t), (k3, VBool h), (k4, VNumber l)] \<Rightarrow>
               if k1 = units ''currentPage'' \<and> k2 = units ''totalLoaded''
                  \<and> k3 = units ''hasMore'' \<and> k4 = units ''lastFetchTime'' then
                 (case (as_int p, as_int t, as_int l) of
                    (Some p', Some t', Some l') \<Rightarrow>
                      Some \<lparr>currentPage = p', totalLoaded = t', hasMore = h, lastFetchTime = l'\<rparr>
                  | _ \<Rightarrow> None)
               else None
           | _ \<Rightarrow> None)
      | _ \<Rightarrow> None)"

section \<open>The browser's localStorage\<close>

text \<open>
  A \<open>Storage\<close> object holds key/value pairs of strings. Its methods throw: every access
  when the storage is not available (disabled, or \<open>window.localStorage\<close> undefined), and
  \<open>setItem\<close> when the new contents would exceed the quota. The helpers catch every
  exception, so the model returns it as a value (\<open>Inl\<close>).
\<close>

record Storage =
  items :: "(string \<times> string) list"
  available :: bool
  quota :: nat

definition storage_size :: "(string \<times> string) list \<Rightarrow> nat" where
  "storage_size kvs = sum_list (map (\<lambda>(k, v). length k + length v) kvs)"

definition getItem :: "string \<Rightarrow> Storage \<Rightarrow> js_error + string option" where
  "getItem k st = (if available st then Inr (map_of (items st) k) else Inl StorageUnavailable)"

definition without :: "string \<Rightarrow> (string \<times> string) list \<Rightarrow> (string \<times> string) list" where
  "without k kvs = filter (\<lambda>kv. fst kv \<noteq> k) kvs"

definition setItem :: "string \<Rightarrow> string \<Rightarrow> Storage \<Rightarrow> js_error + Storage" where
  "setItem k v st =
     (if available st then
        (let kvs = (k, v) # without k (items st) in
         if storage_size kvs \<le> quota st then Inr (st\<lparr>items := kvs\<rparr>)
         else Inl QuotaExceededError)
      else Inl StorageUnavailable)"

definition removeItem :: "string \<Rightarrow> Storage \<Rightarrow> js_error + Storage" where
  "removeItem k st =
     (if available st then Inr (st\<lparr>items := without k (items st)\<rparr>)
      else Inl StorageUnavailable)"

section \<open>helpers/localStorage.ts\<close>

definition POKEMON_KEY :: string where
  "POKEMON_KEY = ''pokemons''"

definition POKEMON_PAGINATION_KEY :: string where
  "POKEMON_PAGINATION_KEY = ''pokemon_pagination''"

text \<open>
  Both loaders return \<open>undefined\<close> (here \<open>None\<close>) when the key is absent and when
  anything throws, and otherwise whatever \<open>JSON.parse\<close> returned, as it is.
\<close>

definition loadPokemonList :: "Storage \<Rightarrow> js_value option" where
  "loadPokemonList st =
     (case getItem POKEMON_KEY st of
        Inl err \<Rightarrow> None
      | Inr None \<Rightarrow> None
      | Inr (Some data) \<Rightarrow>
          (case JSON_parse data of
             Inl err \<Rightarrow> None
           | Inr v \<Rightarrow> Some v))"

definition loadPaginationState :: "Storage \<Rightarrow> js_value option" where
  "loadPaginationState st =
     (case getItem POKEMON_PAGINATION_KEY st of
        Inl err \<Rightarrow> None
      | Inr None \<Rightarrow> None
      | Inr (Some data) \<Rightarrow>
          (case JSON_parse data of
             Inl err \<Rightarrow> None
           | Inr v \<Rightarrow> Some v))"

text \<open>Both savers swallow the exception (after \<open>console.warn\<close>) and leave the store as
  it was.\<close>

definition savePokemonList :: "CachedPokemon list \<Rightarrow> Storage \<Rightarrow> Storage" where
  "savePokemonList pokemonList st =
     (let data = JSON_stringify (JArr (map json_of_CachedPokemon pokemonList)) in
      case setItem POKEMON_KEY data st of
        Inl err \<Rightarrow> st
      | Inr st' \<Rightarrow> st')"

definition savePaginationState :: "PaginationState \<Rightarrow> Storage \<Rightarrow> Storage" where
  "savePaginationState state st =
     (let data = JSON_stringify (json_of_PaginationState state) in
      case setItem POKEMON_PAGINATION_KEY data st of
        Inl err \<Rightarrow> st
      | Inr st' \<Rightarrow> st')"

text \<open>The two removals share one \<open>try\<close> block: when the first throws, the second is
  not attempted.\<close>

definition clearPokemonData :: "Storage \<Rightarrow> Storage" where
  "clearPokemonData st =
     (case removeItem POKEMON_KEY st of
        Inl err \<Rightarrow> st
      | Inr st1 \<Rightarrow>
          (case removeItem POKEMON_PAGINATION_KEY st1 of
             Inl err \<Rightarrow> st1
           | Inr st2 \<Rightarrow> st2))"

section \<open>hooks/usePokemonList.ts\<close>

text \<open>
  Each effect and callback of the hook is a function on the state cells and, where it
  calls the storage helpers, on the store. What the hook reads from its environment is a
  parameter: \<open>now\<close> is \<open>Date.now()\<close>; \<open>pokemonListData\<close>, \<open>isFetching\<close> and
  \<open>queryError\<close> are what \<open>useGetPokemonListQuery\<close> returned for this render
  (\<open>None\<close> is \<open>undefined\<close>). A \<open>set\<close> call replaces the cell; the updater passed to
  \<open>setAllPokemon\<close> receives the current list.
\<close>








text \<open>The error object of a failed query; the hook only tests whether there is one.\<close>

datatype query_error = QueryError string

text \<open>"Handle query result".\<close>

definition handleQueryResult ::
  "int \<Rightarrow> PokemonListResponse option \<Rightarrow> bool \<Rightarrow> query_error option \<Rightarrow>
   hook_state \<times> Storage \<Rightarrow> hook_state \<times> Storage" where
  "handleQueryResult now pokemonListData isFetching queryError w =
     (case w of (s, st) \<Rightarrow>
      (case pokemonListData of
         None \<Rightarrow> (s, st)
       | Some data \<Rightarrow>
           if \<not> isFetching \<and> queryError = None then
             (let newPokemon = map toCachedPokemon (results data) in
              case
                (if currentOffset s = 0 then
                   (let newPaginationState =
                          \<lparr>currentPage = 0,
                           totalLoaded = int (length newPokemon),
                           hasMore = (next data \<noteq> None),
                           lastFetchTime = now\<rparr>
                    in (s\<lparr>allPokemon := newPokemon, paginationState := newPaginationState\<rparr>,
                        savePaginationState newPaginationState (savePokemonList newPokemon st)))
                 else
                   (let prev = allPokemon s;
                        existingIds = set (map id' prev);
                        uniqueNewPokemon = filter (\<lambda>p. id' p \<notin> existingIds) newPokemon;
                        updatedList = prev @ uniqueNewPokemon;
                        newPaginationState =
                          \<lparr>currentPage = currentOffset s div ITEMS_PER_PAGE,
                           totalLoaded = int (length prev) + int (length uniqueNewPokemon),
                           hasMore = (next data \<noteq> None),
                           lastFetchTime = now\<rparr>
                    in (s\<lparr>allPokemon := updatedList, paginationState := newPaginationState\<rparr>,
                        savePaginationState newPaginationState (savePokemonList updatedList st))))
              of (s', st') \<Rightarrow>
                (s'\<lparr>skipQuery := True, error := None, isLoadingMore := False\<rparr>, st'))
           else (s, st)))"

text \<open>"Handle query errors".\<close>

definition handleQueryError :: "query_error option \<Rightarrow> hook_state \<Rightarrow> hook_state" where
  "handleQueryError queryError s =
     (case queryError of
        None \<Rightarrow> s
      | Some err \<Rightarrow>
          s\<lparr>error := Some ''Failed to fetch Pokemon data'',
            skipQuery := True,
            isLoadingMore := False\<rparr>)"

definition loadMoreData :: "bool \<Rightarrow> hook_state \<Rightarrow> hook_state" where
  "loadMoreData isFetching s =
     (if \<not> isFetching \<and> \<not> isLoadingMore s \<and> hasMore (paginationState s) \<and>
         skipQuery s \<and> \<not> isInitialLoading s
      then (let nextOffset = currentOffset s + ITEMS_PER_PAGE in
            s\<lparr>isLoadingMore := True, currentOffset := nextOffset, skipQuery := False\<rparr>)
      else s)"

definition handleRefresh :: "hook_state \<times> Storage \<Rightarrow> hook_state \<times> Storage" where
  "handleRefresh w =
     (case w of (s, st) \<Rightarrow>
        (s\<lparr>allPokemon := [],
           paginationState :=
             \<lparr>currentPage = 0, totalLoaded = 0, hasMore = True, lastFetchTime = 0\<rparr>,
           error := None,
           currentOffset := 0,
           skipQuery := False,
           isLoadingMore := False\<rparr>,
         clearPokemonData st))"

text \<open>\<open>setError(null); loadMoreData();\<close> The callback reads the cells of the render
  it was made in; \<open>error\<close> is none of them, so the two calls commute.\<close>

definition handleRetryLoadMore :: "bool \<Rightarrow> hook_state \<Rightarrow> hook_state" where
  "handleRetryLoadMore isFetching s = loadMoreData isFetching (s\<lparr>error := None\<rparr>)"

section \<open>pages/Home.tsx\<close>

text \<open>
  The page's inline copy of "Handle query result". It differs from the hook on the append
  path: the pagination state is computed outside the updater, from the list of the
  current render and the whole new page.
\<close>

definition Home_handleQueryResult ::
  "int \<Rightarrow> PokemonListResponse option \<Rightarrow> bool \<Rightarrow> query_error option \<Rightarrow>
   hook_state \<times> Storage \<Rightarrow> hook_state \<times> Storage" where
  "Home_handleQueryResult now pokemonListData isFetching queryError w =
     (case w of (s, st) \<Rightarrow>
      (case pokemonListData of
         None \<Rightarrow> (s, st)
       | Some data \<Rightarrow>
           if \<not> isFetching \<and> queryError = None then
             (let newPokemon = map toCachedPokemon (results data) in
              case
                (if currentOffset s = 0 then
                   (let newPaginationState =
                          \<lparr>currentPage = 0,
                           totalLoaded = int (length newPokemon),
                           hasMore = (next data \<noteq> None),
                           lastFetchTime = now\<rparr>
                    in (s\<lparr>allPokemon := newPokemon, paginationState := newPaginationState\<rparr>,
                        savePaginationState newPaginationState (savePokemonList newPokemon st)))
                 else
                   (let prev = allPokemon s;
                        existingIds = set (map id' prev);
                        uniqueNewPokemon = filter (\<lambda>p. id' p \<notin> existingIds) newPokemon;
                        updatedList = prev @ uniqueNewPokemon;
                        newPaginationState =
                          \<lparr>currentPage = currentOffset s div ITEMS_PER_PAGE,
                           totalLoaded = int (length (allPokemon s)) + int (length newPokemon),
                           hasMore = (next data \<noteq> None),
                           lastFetchTime = now\<rparr>
                    in (s\<lparr>allPokemon := updatedList, paginationState := newPaginationState\<rparr>,
                        savePaginationState newPaginationState (savePokemonList updatedList st))))
              of (s', st') \<Rightarrow>
                (s'\<lparr>skipQuery := True, error := None, isLoadingMore := False\<rparr>, st'))
           else (s, st)))"

definition Home_handleRefresh :: "hook_state \<times> Storage \<Rightarrow> hook_state \<times> Storage" where
  "Home_handleRefresh w =
     (case w of (s, st) \<Rightarrow>
        (s\<lparr>allPokemon := [],
           paginationState :=
             \<lparr>currentPage = 0, totalLoaded = 0, hasMore = True, lastFetchTime = 0\<rparr>,
           error := None,
           currentOffset := 0,
           skipQuery := False,
           isLoadingMore := False\<rparr>,
         clearPokemonData st))"

section \<open>Sequences of settled fetches\<close>

text \<open>
  A fetch issued for an offset settles while \<open>currentOffset\<close> holds that offset, which
  is the only cell besides the list that the merge reads. A settled fetch is the triple
  (offset, time of settlement, page); \<open>settleAll\<close> merges a sequence of them in order.
\<close>

definition settleAt ::
  "int \<Rightarrow> int \<Rightarrow> PokemonListResponse \<Rightarrow> hook_state \<times> Storage \<Rightarrow> hook_state \<times> Storage" where
  "settleAt offset now page w =
     (case w of (s, st) \<Rightarrow>
        handleQueryResult now (Some page) False None (s\<lparr>currentOffset := offset\<rparr>, st))"

fun settleAll ::
  "(int \<times> int \<times> PokemonListResponse) list \<Rightarrow> hook_state \<times> Storage \<Rightarrow> hook_state \<times> Storage" where
  "settleAll [] w = w"
| "settleAll ((offset, now, page) # fetches) w = settleAll fetches (settleAt offset now page w)"

definition Home_settleAt ::
  "int \<Rightarrow> int \<Rightarrow> PokemonListResponse \<Rightarrow> hook_state \<times> Storage \<Rightarrow> hook_state \<times> Storage" where
  "Home_settleAt offset now page w =
     (case w of (s, st) \<Rightarrow>
        Home_handleQueryResult now (Some page) False None (s\<lparr>currentOffset := offset\<rparr>, st))"

fun Home_settleAll ::
  "(int \<times> int \<times> PokemonListResponse) list \<Rightarrow> hook_state \<times> Storage \<Rightarrow> hook_state \<times> Storage" where
  "Home_settleAll [] w = w"
| "Home_settleAll ((offset, now, page) # fetches) w =
     Home_settleAll fetches (Home_settleAt offset now page w)"

text \<open>The ids of a page, as the merge parses them.\<close>

definition page_ids :: "PokemonListResponse \<Rightarrow> jsnum list" where
  "page_ids page = map (\<lambda>r. id' (toCachedPokemon r)) (results page)"

text \<open>The spec's wording of the id's position: the second-to-last of the segments.\<close>

definition second_to_last :: "'a list \<Rightarrow> 'a option" where
  "second_to_last xs = (case rev xs of l # p # ps \<Rightarrow> Some p | _ \<Rightarrow> None)"

section \<open>Example data\<close>

text \<open>The resources and pages of the hook's tests.\<close>

definition bulbasaur :: NamedAPIResource where
  "bulbasaur = \<lparr>resource_name = ''bulbasaur'', url = ''https://pokeapi.co/api/v2/pokemon/1/''\<rparr>"

definition ivysaur :: NamedAPIResource where
  "ivysaur = \<lparr>resource_name = ''ivysaur'', url = ''https://pokeapi.co/api/v2/pokemon/2/''\<rparr>"

definition venusaur :: NamedAPIResource where
  "venusaur = \<lparr>resource_name = ''venusaur'', url = ''https://pokeapi.co/api/v2/pokemon/3/''\<rparr>"

definition first_page :: PokemonListResponse where
  "first_page =
     \<lparr>count = 3, next = Some ''next'', previous = None, results = [bulbasaur, ivysaur]\<rparr>"

definition overlapping_page :: PokemonListResponse where
  "overlapping_page =
     \<lparr>count = 3, next = Some ''next'', previous = None, results = [ivysaur, venusaur]\<rparr>"

definition repeating_page :: PokemonListResponse where
  "repeating_page =
     \<lparr>count = 2, next = None, previous = None, results = [bulbasaur, bulbasaur]\<rparr>"

definition empty_storage :: Storage where
  "empty_storage = \<lparr>items = [], available = True, quota = 5242880\<rparr>"

text \<open>The first page is merged and the second has been requested.\<close>

definition two_loaded :: hook_state where
  "two_loaded =
     \<lparr>allPokemon = [\<lparr>id' = Num 1, name = ''bulbasaur''\<rparr>, \<lparr>id' = Num 2, name = ''ivysaur''\<rparr>],
      paginationState =
        \<lparr>currentPage = 0, totalLoaded = 2, hasMore = True, lastFetchTime = 1000\<rparr>,
      currentOffset = 20, skipQuery = False, isInitialLoading = False, error = None,
      isLoadingMore = True\<rparr>"

text \<open>A cache written one minute before the time 1700000000000, as in the hook's test of
  hydration; a cache that holds an empty list and an empty object; a store that holds a
  pagination entry alone; a store with no room left.\<close>

definition cached_pagination :: PaginationState where
  "cached_pagination =
     \<lparr>currentPage = 1, totalLoaded = 2, hasMore = True, lastFetchTime = 1699999940000\<rparr>"

definition cached_list :: "CachedPokemon list" where
  "cached_list = [\<lparr>id' = Num 1, name = ''bulbasaur''\<rparr>, \<lparr>id' = Num 2, name = ''ivysaur''\<rparr>]"

definition cached_storage :: Storage where
  "cached_storage =
     \<lparr>items = [(POKEMON_KEY, JSON_stringify (JArr (map json_of_CachedPokemon cached_list))),
               (POKEMON_PAGINATION_KEY, JSON_stringify (json_of_PaginationState cached_pagination))],
      available = True, quota = 5242880\<rparr>"



definition full_storage :: Storage where
  "full_storage = \<lparr>items = [], available = True, quota = 10\<rparr>"





section \<open>Parsing: supporting lemmas\<close>

lemmas parse_simps = toCachedPokemon_def js_index_def parseInt_def parseInt_string_def
  parseInt_digits_def is_js_space_def is_digit_def radix_value_def digit_val_def

lemma toCachedPokemon_examples:
  "toCachedPokemon bulbasaur = \<lparr>id' = Num 1, name = ''bulbasaur''\<rparr>"
  "toCachedPokemon ivysaur = \<lparr>id' = Num 2, name = ''ivysaur''\<rparr>"
  "toCachedPokemon venusaur = \<lparr>id' = Num 3, name = ''venusaur''\<rparr>"
  by (simp_all add: bulbasaur_def ivysaur_def venusaur_def parse_simps)

lemma js_index_second_to_last: "js_index xs (int (length xs) - 2) = second_to_last xs"
proof (cases "rev xs")
  case Nil
  then show ?thesis by (simp add: js_index_def second_to_last_def)
next
  case (Cons l ys)
  note outer = this
  show ?thesis
  proof (cases ys)
    case Nil
    with outer have "xs = [l]" by (metis rev_singleton_conv)
    then show ?thesis by (simp add: js_index_def second_to_last_def)
  next
    case (Cons p ps)
    with outer have xs: "xs = rev ps @ [p, l]"
      by (metis rev.simps(2) rev_rev_ident append_assoc append_Cons append_Nil rev_swap)
    have "nat (int (length xs) - 2) = length (rev ps)" using xs by simp
    then have "xs ! nat (int (length xs) - 2) = p" using xs by (simp add: nth_append)
    moreover have "second_to_last xs = Some p"
      using outer Cons by (simp add: second_to_last_def)
    ultimately show ?thesis using xs by (simp add: js_index_def)
  qed
qed

lemma String_split_nonempty: "String_split sep s \<noteq> []"
  by (induction s) (auto split: list.splits)

lemma String_split_append:
  "String_split sep (a @ sep # b) = String_split sep a @ String_split sep b"
proof (induction a)
  case Nil
  show ?case by simp
next
  case (Cons c a)
  then show ?case using String_split_nonempty [of sep a]
    by (cases "String_split sep a") auto
qed

lemma String_split_no_sep: "sep \<notin> set s \<Longrightarrow> String_split sep s = [s]"
  by (induction s) auto

section \<open>Merging: supporting lemmas\<close>

lemma distinct_merge:
  assumes "distinct (map id' prev)" and "distinct (map id' new)"
  shows "distinct (map id' (prev @ filter (\<lambda>p. id' p \<notin> set (map id' prev)) new))"
proof -
  have "distinct (map id' (filter (\<lambda>p. id' p \<notin> set (map id' prev)) new))"
    using assms(2) by (rule distinct_map_filter)
  moreover have
    "set (map id' prev) \<inter> set (map id' (filter (\<lambda>p. id' p \<notin> set (map id' prev)) new)) = {}"
    by (auto simp: image_iff)
  ultimately show ?thesis using assms(1) by simp
qed

lemma Home_list_eq:
  "allPokemon (fst (Home_handleQueryResult now d f e w)) =
   allPokemon (fst (handleQueryResult now d f e w))"
  by (cases w)
    (simp add: handleQueryResult_def Home_handleQueryResult_def Let_def split: option.splits)

lemma settleAt_list:
  "allPokemon (fst (settleAt offset now page w)) =
     (if offset = 0 then map toCachedPokemon (results page)
      else allPokemon (fst w) @
           filter (\<lambda>p. id' p \<notin> set (map id' (allPokemon (fst w))))
             (map toCachedPokemon (results page)))"
  by (cases w) (simp add: settleAt_def handleQueryResult_def Let_def)

lemma Home_settleAt_list:
  "allPokemon (fst (Home_settleAt offset now page w)) = allPokemon (fst (settleAt offset now page w))"
  by (cases w) (simp add: Home_settleAt_def settleAt_def Home_list_eq)

lemma settleAt_distinct:
  assumes "distinct (page_ids page)"
      and "offset = 0 \<or> distinct (map id' (allPokemon (fst w)))"
  shows "distinct (map id' (allPokemon (fst (settleAt offset now page w))))"
proof -
  have new: "distinct (map id' (map toCachedPokemon (results page)))"
    using assms(1) by (simp add: page_ids_def comp_def)
  show ?thesis
  proof (cases "offset = 0")
    case True
    then show ?thesis using new by (simp add: settleAt_list)
  next
    case False
    with assms(2) have "distinct (map id' (allPokemon (fst w)))" by simp
    from distinct_merge [OF this new] False show ?thesis by (simp add: settleAt_list)
  qed
qed

lemma settleAll_distinct:
  assumes "\<forall>f \<in> set fetches. distinct (page_ids (snd (snd f)))"
      and "distinct (map id' (allPokemon (fst w)))"
  shows "distinct (map id' (allPokemon (fst (settleAll fetches w))))"
  using assms
proof (induction fetches arbitrary: w)
  case Nil
  then show ?case by simp
next
  case (Cons f fetches)
  obtain offset now page where f: "f = (offset, now, page)" by (cases f) auto
  have "distinct (map id' (allPokemon (fst (settleAt offset now page w))))"
    using Cons.prems f by (intro settleAt_distinct) auto
  then show ?case
    using Cons.IH [of "settleAt offset now page w"] Cons.prems(1) f by simp
qed

lemma Home_settleAll_distinct:
  assumes "\<forall>f \<in> set fetches. distinct (page_ids (snd (snd f)))"
      and "distinct (map id' (allPokemon (fst w)))"
  shows "distinct (map id' (allPokemon (fst (Home_settleAll fetches w))))"
  using assms
proof (induction fetches arbitrary: w)
  case Nil
  then show ?case by simp
next
  case (Cons f fetches)
  obtain offset now page where f: "f = (offset, now, page)" by (cases f) auto
  have "distinct (map id' (allPokemon (fst (settleAt offset now page w))))"
    using Cons.prems f by (intro settleAt_distinct) auto
  then have "distinct (map id' (allPokemon (fst (Home_settleAt offset now page w))))"
    by (simp add: Home_settleAt_list)
  then show ?case
    using Cons.IH [of "Home_settleAt offset now page w"] Cons.prems(1) f by simp
qed

text \<open>The hook keeps \<open>totalLoaded\<close> equal to the length of the list on both paths.\<close>

lemma hook_totalLoaded:
  "totalLoaded (paginationState (fst (handleQueryResult now (Some page) False None (s, st))))
     = int (length (allPokemon (fst (handleQueryResult now (Some page) False None (s, st)))))"
  by (simp add: handleQueryResult_def Let_def)

lemma example_page_ids:
  "page_ids first_page = [Num 1, Num 2]"
  "page_ids overlapping_page = [Num 2, Num 3]"
  "page_ids repeating_page = [Num 1, Num 1]"
  by (simp_all add: page_ids_def first_page_def overlapping_page_def repeating_page_def
      toCachedPokemon_examples)

lemma example_names:
  "resource_name bulbasaur = ''bulbasaur''"
  "resource_name ivysaur = ''ivysaur''"
  "resource_name venusaur = ''venusaur''"
  by (simp_all add: bulbasaur_def ivysaur_def venusaur_def)

lemma toCachedPokemon_wellformed:
  assumes "ds \<noteq> []" and "\<forall>c \<in> set ds. is_digit c"
  shows "toCachedPokemon \<lparr>resource_name = n, url = base @ ''/'' @ ds @ ''/''\<rparr>
           = \<lparr>id' = Num (int (radix_value 10 digit_val ds)), name = n\<rparr>"
proof -
  have nosep: "CHR ''/'' \<notin> set ds" using assms(2) by (auto simp: is_digit_def)
  have parts: "String_split CHR ''/'' (base @ CHR ''/'' # ds @ ''/'')
                 = String_split CHR ''/'' base @ [ds, []]"
    using String_split_append [of "CHR ''/''" base "ds @ ''/''"]
          String_split_append [of "CHR ''/''" ds "[]"] String_split_no_sep [OF nosep]
    by simp
  have stl: "second_to_last (String_split CHR ''/'' base @ [ds, []]) = Some ds"
    by (simp add: second_to_last_def)
  obtain d ds' where ds: "ds = d # ds'" using assms(1) by (cases ds) auto
  have d: "is_digit d" using assms(2) ds by simp
  have nospace: "dropWhile is_js_space ds = ds"
    using d ds by (auto simp: is_digit_def is_js_space_def)
  have nosign: "d \<noteq> CHR ''-''" "d \<noteq> CHR ''+''" using d by (auto simp: is_digit_def)
  have tw: "takeWhile is_digit ds = ds" using assms(2) by (simp add: takeWhile_eq_all_conv)
  have nohex: "\<And>x hs. ds' = x # hs \<Longrightarrow> x \<noteq> CHR ''x'' \<and> x \<noteq> CHR ''X''"
    using assms(2) ds by (auto simp: is_digit_def)
  have pd: "parseInt_digits ds = Num (int (radix_value 10 digit_val ds))"
    using tw ds nohex unfolding parseInt_digits_def
    by (cases ds') (auto split: list.splits)
  have "parseInt_string ds = Num (int (radix_value 10 digit_val ds))"
    using nospace nosign pd ds by (simp add: parseInt_string_def)
  then show ?thesis
    by (simp add: toCachedPokemon_def js_index_second_to_last parts stl parseInt_def)
qed

section \<open>Serialising and reading back: supporting lemmas\<close>

lemma below_ten: "(d::nat) < 10 \<Longrightarrow> d \<in> {0, 1, 2, 3, 4, 5, 6, 7, 8, 9}"
  by auto

lemma digit_char_props:
  assumes "d < 10"
  shows "is_digit (digit_char d)" and "digit_val (digit_char d) = d"
    and "d \<noteq> 0 \<Longrightarrow> digit_char d \<noteq> CHR ''0''"
  using below_ten [OF assms] by (auto simp: digit_char_def is_digit_def digit_val_def)

lemma show_nat_nonempty: "show_nat n \<noteq> []"
  by (subst show_nat.simps) simp

lemma show_nat_digits: "c \<in> set (show_nat n) \<Longrightarrow> is_digit c"
proof (induction n arbitrary: c rule: show_nat.induct)
  case (1 n)
  show ?case
  proof (cases "n < 10")
    case True
    with "1.prems" show ?thesis by (subst (asm) show_nat.simps) (simp add: digit_char_props)
  next
    case False
    have "n mod 10 < 10" by simp
    with False "1.prems" "1.IH" show ?thesis
      by (subst (asm) show_nat.simps) (auto simp: digit_char_props)
  qed
qed

lemma show_nat_value: "radix_value 10 digit_val (show_nat n) = n"
proof (induction n rule: show_nat.induct)
  case (1 n)
  show ?case
  proof (cases "n < 10")
    case True
    then show ?thesis
      by (subst show_nat.simps) (simp add: radix_value_def digit_char_props)
  next
    case False
    have m: "n mod 10 < 10" by simp
    from False "1.IH" have "radix_value 10 digit_val (show_nat (n div 10)) = n div 10" by simp
    with False m show ?thesis
      by (subst show_nat.simps) (simp add: radix_value_def digit_char_props)
  qed
qed

lemma show_nat_leading: "n \<noteq> 0 \<Longrightarrow> hd (show_nat n) \<noteq> CHR ''0''"
proof (induction n rule: show_nat.induct)
  case (1 n)
  show ?case
  proof (cases "n < 10")
    case True
    with "1.prems" show ?thesis by (subst show_nat.simps) (simp add: digit_char_props)
  next
    case False
    then have "n div 10 \<noteq> 0" by simp
    with False "1.IH" have "hd (show_nat (n div 10)) \<noteq> CHR ''0''" by simp
    with False show ?thesis
      by (subst show_nat.simps) (simp add: show_nat_nonempty)
  qed
qed

lemma show_nat_zero: "show_nat 0 = ''0''"
  by (subst show_nat.simps) (simp add: digit_char_def)

text \<open>What can follow a number in the text of an array or an object.\<close>

definition ends_number :: "string \<Rightarrow> bool" where
  "ends_number rest \<longleftrightarrow> rest \<noteq> [] \<and> hd rest \<in> set '',}]''"

lemma ends_number_facts:
  assumes "ends_number rest"
  shows "takeWhile is_digit rest = []" and "dropWhile is_digit rest = rest"
    and "lex_fraction rest = Some (0, rest)" and "lex_exponent rest = Some (0, rest)"
  using assms
  by (cases rest; auto simp: ends_number_def is_digit_def lex_fraction_def lex_exponent_def)+

lemma lex_nat_show_nat:
  assumes "ends_number rest"
  shows "lex_nat (show_nat n @ rest) = Some (n, rest)"
proof -
  have all: "\<forall>c \<in> set (show_nat n). is_digit c" by (simp add: show_nat_digits)
  have tw: "takeWhile is_digit (show_nat n @ rest) = show_nat n"
    using all ends_number_facts(1) [OF assms] by (simp add: takeWhile_append2)
  have dw: "dropWhile is_digit (show_nat n @ rest) = rest"
    using all ends_number_facts(2) [OF assms] by (simp add: dropWhile_append2)
  have lead: "\<not> (hd (show_nat n) = CHR ''0'' \<and> 1 < length (show_nat n))"
    using show_nat_leading [of n] show_nat_zero by (cases "n = 0") auto
  show ?thesis
    using tw dw lead
    by (simp add: lex_nat_def Let_def show_nat_nonempty show_nat_value)
qed

lemma lex_unsigned_show_nat:
  assumes "ends_number rest"
  shows "lex_unsigned (show_nat n @ rest) = Some (of_nat n, rest)"
  by (simp add: lex_unsigned_def lex_nat_show_nat [OF assms] ends_number_facts(3,4) [OF assms]
      scale10_def)

lemma show_nat_not_minus: "hd (show_nat n) \<noteq> CHR ''-''"
  using show_nat_digits [of "hd (show_nat n)" n] show_nat_nonempty [of n]
  by (auto simp: is_digit_def)

lemma lex_number_show_int:
  assumes "ends_number rest"
  shows "lex_number (show_int i @ rest) = Some (of_int i, rest)"
proof (cases "i < 0")
  case True
  then have "- (of_nat (nat (- i)) :: rat) = of_int i" by simp
  with True show ?thesis
    by (simp add: show_int_def lex_number_def lex_unsigned_show_nat [OF assms])
next
  case False
  obtain c cs where sn: "show_nat (nat i) = c # cs"
    using show_nat_nonempty [of "nat i"] by (cases "show_nat (nat i)") auto
  have "c \<noteq> CHR ''-''" using show_nat_not_minus [of "nat i"] sn by simp
  moreover have "lex_unsigned (c # cs @ rest) = Some (of_nat (nat i), rest)"
    using lex_unsigned_show_nat [OF assms, of "nat i"] sn by simp
  moreover have "(of_nat (nat i) :: rat) = of_int i" using False by simp
  ultimately show ?thesis using False sn by (simp add: show_int_def lex_number_def)
qed

lemma show_int_head:
  obtains c cs where "show_int i = c # cs" and "c = CHR ''-'' \<or> is_digit c"
proof (cases "i < 0")
  case True
  then have "show_int i = CHR ''-'' # show_nat (nat (- i))" by (simp add: show_int_def)
  then show ?thesis using that by blast
next
  case False
  obtain c cs where sn: "show_nat (nat i) = c # cs"
    using show_nat_nonempty [of "nat i"] by (cases "show_nat (nat i)") auto
  then have "is_digit c" using show_nat_digits [of c "nat i"] by simp
  with sn False show ?thesis using that by (simp add: show_int_def)
qed

lemma lex_show_int:
  assumes "ends_number rest"
  shows "tokenize (show_int i @ rest) = map_option (Cons (TNumber (of_int i))) (tokenize rest)"
proof -
  obtain c cs where si: "show_int i = c # cs" and c: "c = CHR ''-'' \<or> is_digit c"
    by (rule show_int_head)
  have num: "lex_number (c # cs @ rest) = Some (of_int i, rest)"
    using lex_number_show_int [OF assms, of i] si by simp
  have tok: "lex_token c (cs @ rest) = Some (TNumber (of_int i), rest)"
    using c num by (auto simp: lex_token_def punctuation_def is_digit_def)
  have "\<not> is_json_space c" using c by (auto simp: is_json_space_def is_digit_def)
  with tok si show ?thesis by (simp add: tokenize.simps)
qed

lemma lex_punct:
  "tokenize (CHR ''{'' # cs) = map_option (Cons TLBrace) (tokenize cs)"
  "tokenize (CHR ''}'' # cs) = map_option (Cons TRBrace) (tokenize cs)"
  "tokenize (CHR '','' # cs) = map_option (Cons TComma) (tokenize cs)"
  "tokenize (CHR '':'' # cs) = map_option (Cons TColon) (tokenize cs)"
  "tokenize (CHR ''['' # cs) = map_option (Cons TLBracket) (tokenize cs)"
  "tokenize (CHR '']'' # cs) = map_option (Cons TRBracket) (tokenize cs)"
  by (simp_all add: tokenize.simps lex_token_def punctuation_def is_json_space_def)

lemma lex_quoted:
  "tokenize (CHR 0x22 # cs) =
     (case lex_string cs of
        None \<Rightarrow> None
      | Some (s, rest) \<Rightarrow> map_option (Cons (TString s)) (tokenize rest))"
  by (simp add: tokenize.simps lex_token_def punctuation_def is_json_space_def
      split: option.splits)

lemma lex_bool:
  "tokenize (CHR ''t'' # CHR ''r'' # CHR ''u'' # CHR ''e'' # cs) =
     map_option (Cons TTrue) (tokenize cs)"
  "tokenize (CHR ''f'' # CHR ''a'' # CHR ''l'' # CHR ''s'' # CHR ''e'' # cs) =
     map_option (Cons TFalse) (tokenize cs)"
  "tokenize (CHR ''n'' # CHR ''u'' # CHR ''l'' # CHR ''l'' # cs) =
     map_option (Cons TNull) (tokenize cs)"
  by (simp_all add: tokenize.simps lex_token_def punctuation_def is_json_space_def lex_word_def)

lemma ends_number_simps: "ends_number (CHR '','' # cs)" "ends_number (CHR ''}'' # cs)"
  by (simp_all add: ends_number_def)

lemma quote_keys:
  "quote ''currentPage'' = CHR 0x22 # ''currentPage'' @ [CHR 0x22]"
  "quote ''totalLoaded'' = CHR 0x22 # ''totalLoaded'' @ [CHR 0x22]"
  "quote ''hasMore'' = CHR 0x22 # ''hasMore'' @ [CHR 0x22]"
  "quote ''lastFetchTime'' = CHR 0x22 # ''lastFetchTime'' @ [CHR 0x22]"
  by (simp_all add: quote_def quote_char_def)

lemma lex_PaginationState:
  "tokenize (JSON_stringify (json_of_PaginationState s)) =
     Some [TLBrace, TString (units ''currentPage''), TColon, TNumber (of_int (currentPage s)),
           TComma, TString (units ''totalLoaded''), TColon, TNumber (of_int (totalLoaded s)),
           TComma, TString (units ''hasMore''), TColon, (if hasMore s then TTrue else TFalse),
           TComma, TString (units ''lastFetchTime''), TColon,
           TNumber (of_int (lastFetchTime s)), TRBrace]"
  by (cases "hasMore s")
     (simp_all add: json_of_PaginationState_def quote_keys lex_punct lex_quoted lex_bool
        lex_show_int ends_number_simps units_def)

lemma parse_scalar:
  "parse_value (TNumber n # ts) = Some (VNumber n, ts)"
  "parse_value (TTrue # ts) = Some (VBool True, ts)"
  "parse_value (TFalse # ts) = Some (VBool False, ts)"
  "parse_value (TString s # ts) = Some (VString s, ts)"
  "parse_value (TNull # ts) = Some (VNull, ts)"
  by (simp_all add: parse_value.simps)

lemma parse_members_more:
  "parse_value ts = Some (v, TComma # rest) \<Longrightarrow>
   parse_members (TString k # TColon # ts) =
     map_option (\<lambda>(ms, r). ((k, v) # ms, r)) (parse_members rest)"
  using parse_shorter(1) [of ts v "TComma # rest"]
  by (subst parse_members.simps) simp

lemma parse_members_last:
  "parse_value ts = Some (v, TRBrace # rest) \<Longrightarrow>
   parse_members (TString k # TColon # ts) = Some ([(k, v)], rest)"
  using parse_shorter(1) [of ts v "TRBrace # rest"]
  by (subst parse_members.simps) simp

lemma parse_object:
  "ts \<noteq> [] \<Longrightarrow> hd ts \<noteq> TRBrace \<Longrightarrow>
   parse_value (TLBrace # ts) = map_option (\<lambda>(ms, rest). (VObject ms, rest)) (parse_members ts)"
  by (subst parse_value.simps) simp

lemma parse_empty:
  "parse_value (TLBrace # TRBrace # ts) = Some (VObject [], ts)"
  "parse_value (TLBracket # TRBracket # ts) = Some (VArray [], ts)"
  by (simp_all add: parse_value.simps)

lemma parse_elements_more:
  "parse_value ts = Some (v, TComma # rest) \<Longrightarrow>
   parse_elements ts = map_option (\<lambda>(vs, r). (v # vs, r)) (parse_elements rest)"
  using parse_shorter(1) [of ts v "TComma # rest"]
  by (subst parse_elements.simps) simp

lemma parse_elements_last:
  "parse_value ts = Some (v, TRBracket # rest) \<Longrightarrow> parse_elements ts = Some ([v], rest)"
  using parse_shorter(1) [of ts v "TRBracket # rest"]
  by (subst parse_elements.simps) simp

lemma parse_array:
  "ts \<noteq> [] \<Longrightarrow> hd ts \<noteq> TRBracket \<Longrightarrow>
   parse_value (TLBracket # ts) = map_option (\<lambda>(vs, rest). (VArray vs, rest)) (parse_elements ts)"
  by (subst parse_value.simps) simp

lemmas parse_rules = parse_scalar parse_object parse_empty parse_array parse_members_more
  parse_members_last parse_elements_more parse_elements_last

lemma parse_PaginationState:
  "parse_value
     [TLBrace, TString (units ''currentPage''), TColon, TNumber (of_int p), TComma,
      TString (units ''totalLoaded''), TColon, TNumber (of_int t), TComma,
      TString (units ''hasMore''), TColon, (if h then TTrue else TFalse), TComma,
      TString (units ''lastFetchTime''), TColon, TNumber (of_int l), TRBrace]
   = Some (js_value_of
       (json_of_PaginationState
          \<lparr>currentPage = p, totalLoaded = t, hasMore = h, lastFetchTime = l\<rparr>), [])"
  by (cases h) (simp_all add: parse_rules json_of_PaginationState_def)

text \<open>\<open>JSON.parse\<close> of what \<open>JSON.stringify\<close> wrote for a pagination state is the
  object the state is.\<close>

lemma JSON_roundtrip_PaginationState:
  "JSON_parse (JSON_stringify (json_of_PaginationState s)) =
     Inr (js_value_of (json_of_PaginationState s))"
  using parse_PaginationState [of "currentPage s" "totalLoaded s" "hasMore s" "lastFetchTime s"]
  by (simp add: JSON_parse_def lex_PaginationState del: js_value_of.simps)
     (simp add: json_of_PaginationState_def)

lemma as_int_of_int: "as_int (of_int n) = Some n"
  by (simp add: as_int_def)

lemma as_PaginationState_json:
  "as_PaginationState (js_value_of (json_of_PaginationState s)) = Some s"
  by (simp add: as_PaginationState_def json_of_PaginationState_def own_properties_def
      define_property_def units_def as_int_of_int)

lemma getItem_setItem:
  "setItem k v st = Inr st' \<Longrightarrow> getItem k st' = Inr (Some v)"
  by (auto simp: setItem_def getItem_def Let_def split: if_splits)

lemma zero_text_length:
  "length (JSON_stringify (json_of_PaginationState zeroPagination)) = 66"
  by (simp add: json_of_PaginationState_def zeroPagination_def quote_keys show_int_def
      show_nat_zero)

section \<open>The mount effect: supporting lemmas\<close>








text \<open>Reading a property of an object is reading it among the members the object holds.\<close>

lemma define_property_keys:
  "set (map fst (define_property ps kv)) = insert (fst kv) (set (map fst ps))"
  by (auto simp: define_property_def image_iff)











section \<open>The example stores: supporting lemmas\<close>

lemma units_inj [simp]: "units s = units t \<longleftrightarrow> s = t"
  by (simp add: units_def inj_map_eq_map inj_on_def)

lemma as_string_units: "as_string (units s) = Some s"
  by (simp add: as_string_def units_def list_all_iff comp_def)

lemma quote_names:
  "quote ''id'' = CHR 0x22 # ''id'' @ [CHR 0x22]"
  "quote ''name'' = CHR 0x22 # ''name'' @ [CHR 0x22]"
  "quote ''bulbasaur'' = CHR 0x22 # ''bulbasaur'' @ [CHR 0x22]"
  "quote ''ivysaur'' = CHR 0x22 # ''ivysaur'' @ [CHR 0x22]"
  "quote ''pikachu'' = CHR 0x22 # ''pikachu'' @ [CHR 0x22]"
  by (simp_all add: quote_def quote_char_def)

lemma cached_list_parsed:
  "JSON_parse (JSON_stringify (JArr (map json_of_CachedPokemon cached_list))) =
     Inr (js_value_of (JArr (map json_of_CachedPokemon cached_list)))"
proof -
  have "tokenize (JSON_stringify (JArr (map json_of_CachedPokemon cached_list))) =
     Some [TLBracket, TLBrace, TString (units ''id''), TColon, TNumber 1, TComma,
           TString (units ''name''), TColon, TString (units ''bulbasaur''), TRBrace, TComma,
           TLBrace, TString (units ''id''), TColon, TNumber 2, TComma,
           TString (units ''name''), TColon, TString (units ''ivysaur''), TRBrace, TRBracket]"
    using lex_show_int [of _ 1] lex_show_int [of _ 2]
    by (simp add: cached_list_def json_of_CachedPokemon_def json_of_jsnum_def quote_names
        lex_punct lex_quoted ends_number_simps units_def)
  then show ?thesis
    by (simp add: JSON_parse_def parse_rules cached_list_def json_of_CachedPokemon_def
        json_of_jsnum_def)
qed

lemma cached_list_typed:
  "as_PokemonList (js_value_of (JArr (map json_of_CachedPokemon cached_list))) = Some cached_list"
  using as_int_of_int [of 1] as_int_of_int [of 2]
  by (simp add: as_PokemonList_def as_CachedPokemon_def as_jsnum_def as_string_units
      own_properties_def define_property_def cached_list_def
      json_of_CachedPokemon_def json_of_jsnum_def)

lemma cached_loads:
  "loadPokemonList cached_storage
     = Some (js_value_of (JArr (map json_of_CachedPokemon cached_list)))"
  "loadPaginationState cached_storage
     = Some (js_value_of (json_of_PaginationState cached_pagination))"
proof -
  show "loadPokemonList cached_storage
     = Some (js_value_of (JArr (map json_of_CachedPokemon cached_list)))"
    unfolding loadPokemonList_def
    by (simp add: cached_storage_def getItem_def POKEMON_KEY_def POKEMON_PAGINATION_KEY_def
        cached_list_parsed del: JSON_stringify.simps js_value_of.simps)
  show "loadPaginationState cached_storage
     = Some (js_value_of (json_of_PaginationState cached_pagination))"
    unfolding loadPaginationState_def
    by (simp add: cached_storage_def getItem_def POKEMON_KEY_def POKEMON_PAGINATION_KEY_def
        JSON_roundtrip_PaginationState del: JSON_stringify.simps js_value_of.simps)
qed









section \<open>The claims\<close>

text \<open>
  C1 (as amended). For every sequence of settled fetches that starts with a fetch at offset
  0 and goes on with fetches at any offsets, if no page repeats an id within itself (the
  ids parsed from its urls are pairwise distinct), then the accumulated list holds no two
  entries with the same id. This holds for the hook and for the page's inline copy.
\<close>

theorem no_duplicate_ids:
  assumes "\<forall>f \<in> set (first # rest). distinct (page_ids (snd (snd f)))"
      and "fst first = 0"
  shows "distinct (map id' (allPokemon (fst (settleAll (first # rest) w))))
       \<and> distinct (map id' (allPokemon (fst (Home_settleAll (first # rest) w))))"
proof -
  obtain now page where first: "first = (0, now, page)"
    using assms(2) by (cases first) auto
  have page: "distinct (page_ids page)" using assms(1) first by simp
  have rest: "\<forall>f \<in> set rest. distinct (page_ids (snd (snd f)))" using assms(1) by simp
  have start: "distinct (map id' (allPokemon (fst (settleAt 0 now page w))))"
    using page by (intro settleAt_distinct) simp_all
  then have "distinct (map id' (allPokemon (fst (Home_settleAt 0 now page w))))"
    by (simp add: Home_settleAt_list)
  with start show ?thesis
    using settleAll_distinct [OF rest] Home_settleAll_distinct [OF rest] first by simp
qed

theorem no_duplicate_ids_witness:
  "distinct (page_ids first_page) \<and> distinct (page_ids overlapping_page)
   \<and> distinct (map id' (allPokemon (fst (settleAll
        [(0, 1000, first_page), (20, 2000, overlapping_page)] (initial_state, empty_storage)))))
   \<and> distinct (map id' (allPokemon (fst (Home_settleAll
        [(0, 1000, first_page), (20, 2000, overlapping_page)] (initial_state, empty_storage)))))"
  using no_duplicate_ids [of "(0, 1000, first_page)" "[(20, 2000, overlapping_page)]"
      "(initial_state, empty_storage)"]
  by (simp add: example_page_ids)

text \<open>
  C1 as stated, over arbitrary result pages, fails: a page that lists the same resource
  twice is stored as it is at offset 0, and the list then holds the id 1 twice. The merge
  removes the ids the list already holds, never the repetitions inside the page.
\<close>

theorem repeated_id_within_a_page:
  "\<not> distinct (map id' (allPokemon (fst (settleAll [(0, 1000, repeating_page)]
        (initial_state, empty_storage)))))"
  by (simp add: settleAt_list repeating_page_def toCachedPokemon_examples)

text \<open>
  C2. The hook keeps \<open>totalLoaded\<close> equal to the length of the list on both paths
  (lemma \<open>hook_totalLoaded\<close>). The inline copy in pages/Home.tsx does not on the append
  path: with the list holding ids 1 and 2 and a page holding ids 2 and 3 settled at offset
  20, the list has 3 entries and \<open>totalLoaded\<close> is 4, the length of the old list plus the
  length of the whole page.
\<close>

theorem Home_totalLoaded_overcounts:
  "totalLoaded (paginationState (fst (Home_handleQueryResult 2000 (Some overlapping_page) False
      None (two_loaded, empty_storage)))) = 4
   \<and> length (allPokemon (fst (Home_handleQueryResult 2000 (Some overlapping_page) False
      None (two_loaded, empty_storage)))) = 3"
  by (simp add: Home_handleQueryResult_def Let_def two_loaded_def overlapping_page_def
      toCachedPokemon_examples)

text \<open>
  C3. When a successful fetch settles at an offset above 0, the old list is a prefix of the
  new one (same entries at the same positions), and what follows the prefix is the new
  page, in page order, without the items whose id the old list already holds.
\<close>

theorem append_keeps_prefix:
  assumes "0 < currentOffset s"
  shows "take (length (allPokemon s))
           (allPokemon (fst (handleQueryResult now (Some page) False None (s, st)))) = allPokemon s
       \<and> drop (length (allPokemon s))
           (allPokemon (fst (handleQueryResult now (Some page) False None (s, st))))
         = filter (\<lambda>p. id' p \<notin> id' ` set (allPokemon s)) (map toCachedPokemon (results page))"
  using assms by (simp add: handleQueryResult_def Let_def)

theorem append_keeps_prefix_witness:
  "0 < currentOffset two_loaded
   \<and> take (length (allPokemon two_loaded))
        (allPokemon (fst (handleQueryResult 2000 (Some overlapping_page) False None
          (two_loaded, empty_storage))))
     = [\<lparr>id' = Num 1, name = ''bulbasaur''\<rparr>, \<lparr>id' = Num 2, name = ''ivysaur''\<rparr>]
   \<and> drop (length (allPokemon two_loaded))
        (allPokemon (fst (handleQueryResult 2000 (Some overlapping_page) False None
          (two_loaded, empty_storage))))
     = [\<lparr>id' = Num 3, name = ''venusaur''\<rparr>]"
proof -
  have pos: "0 < currentOffset two_loaded" by (simp add: two_loaded_def)
  have old: "allPokemon two_loaded =
      [\<lparr>id' = Num 1, name = ''bulbasaur''\<rparr>, \<lparr>id' = Num 2, name = ''ivysaur''\<rparr>]"
    by (simp add: two_loaded_def)
  show ?thesis
    using pos append_keeps_prefix [OF pos, of 2000 overlapping_page empty_storage]
    by (simp add: old overlapping_page_def toCachedPokemon_examples)
qed

text \<open>
  C4. When a successful fetch settles at offset 0, the list becomes the parsed page: for
  each resource, the id is \<open>parseInt\<close> of the second-to-last of the segments of its url
  between the slashes, paired with the resource's name. An entry of the old list is in the
  new list only if its id is an id of the page. For a url that ends in a slash, a run of
  decimal digits and a slash, the id is the number the digits spell (lemma
  \<open>toCachedPokemon_wellformed\<close>).
\<close>

theorem replace_at_offset_zero:
  assumes "currentOffset s = 0"
  shows "allPokemon (fst (handleQueryResult now (Some page) False None (s, st)))
           = map (\<lambda>r. \<lparr>id' = parseInt (second_to_last (String_split CHR ''/'' (url r))),
                       name = resource_name r\<rparr>) (results page)
       \<and> (\<forall>p \<in> set (allPokemon s).
             p \<in> set (allPokemon (fst (handleQueryResult now (Some page) False None (s, st))))
             \<longrightarrow> id' p \<in> set (page_ids page))"
  using assms
  by (auto simp: handleQueryResult_def Let_def toCachedPokemon_def js_index_second_to_last
      page_ids_def)

theorem replace_at_offset_zero_witness:
  "currentOffset (two_loaded\<lparr>currentOffset := 0\<rparr>) = 0
   \<and> allPokemon (fst (handleQueryResult 2000 (Some overlapping_page) False None
          (two_loaded\<lparr>currentOffset := 0\<rparr>, empty_storage)))
     = [\<lparr>id' = Num 2, name = ''ivysaur''\<rparr>, \<lparr>id' = Num 3, name = ''venusaur''\<rparr>]"
proof -
  have z: "currentOffset (two_loaded\<lparr>currentOffset := 0\<rparr>) = 0" by simp
  have seg: "\<And>r. parseInt (second_to_last (String_split CHR ''/'' (url r))) = id' (toCachedPokemon r)"
    by (simp add: toCachedPokemon_def js_index_second_to_last)
  show ?thesis
    using replace_at_offset_zero [OF z, of 2000 overlapping_page empty_storage]
    by (simp add: seg overlapping_page_def toCachedPokemon_examples example_names)
qed






text \<open>
  C7. \<open>loadMoreData\<close> called while a fetch is in flight, or while \<open>isLoadingMore\<close>
  holds, or when \<open>hasMore\<close> is false, returns the state as it was: no cell changes, and
  the function has no access to the store.
\<close>

theorem loadMoreData_noop:
  assumes "isFetching \<or> isLoadingMore s \<or> \<not> hasMore (paginationState s)"
  shows "loadMoreData isFetching s = s"
  using assms by (auto simp: loadMoreData_def)

theorem loadMoreData_noop_witness:
  "loadMoreData True two_loaded = two_loaded
   \<and> isLoadingMore two_loaded \<and> loadMoreData False two_loaded = two_loaded
   \<and> \<not> hasMore (paginationState (initial_state\<lparr>paginationState := zeroPagination\<lparr>hasMore := False\<rparr>\<rparr>))
   \<and> loadMoreData False (initial_state\<lparr>paginationState := zeroPagination\<lparr>hasMore := False\<rparr>\<rparr>)
       = initial_state\<lparr>paginationState := zeroPagination\<lparr>hasMore := False\<rparr>\<rparr>"
  using loadMoreData_noop [of True two_loaded] loadMoreData_noop [of False two_loaded]
    loadMoreData_noop [of False "initial_state\<lparr>paginationState := zeroPagination\<lparr>hasMore := False\<rparr>\<rparr>"]
  by (simp add: two_loaded_def)

text \<open>
  C8. A query error sets \<open>error\<close> to the string "Failed to fetch Pokemon data", closes
  the gate (\<open>skipQuery\<close> is true, so the query hook issues nothing) and clears
  \<open>isLoadingMore\<close>; no other cell changes. \<open>handleRetryLoadMore\<close> leaves \<open>error\<close>
  empty and is otherwise \<open>loadMoreData\<close> with all its guards.
\<close>

theorem fetch_failure_and_retry:
  "handleQueryError (Some err) s
     = s\<lparr>error := Some ''Failed to fetch Pokemon data'', skipQuery := True, isLoadingMore := False\<rparr>
   \<and> error (handleRetryLoadMore isFetching s) = None
   \<and> handleRetryLoadMore isFetching s = (loadMoreData isFetching s)\<lparr>error := None\<rparr>"
  by (simp add: handleQueryError_def handleRetryLoadMore_def loadMoreData_def Let_def)

text \<open>
  C9 (as amended). For every pagination state, if the write succeeds (\<open>setItem\<close> does
  not throw), \<open>loadPaginationState\<close> after \<open>savePaginationState\<close> returns the state
  that was saved, through \<open>JSON.stringify\<close>, the key "pokemon_pagination" and
  \<open>JSON.parse\<close>: the value returned is the object with the state's four fields, which
  read at the declared type is the state itself.
\<close>

theorem pagination_roundtrip:
  assumes "setItem POKEMON_PAGINATION_KEY (JSON_stringify (json_of_PaginationState s)) st = Inr st'"
  shows "loadPaginationState (savePaginationState s st)
           = Some (js_value_of (json_of_PaginationState s))
       \<and> Option.bind (loadPaginationState (savePaginationState s st)) as_PaginationState = Some s"
  using assms getItem_setItem [OF assms]
  by (simp add: savePaginationState_def loadPaginationState_def Let_def
      JSON_roundtrip_PaginationState as_PaginationState_json
      del: JSON_stringify.simps js_value_of.simps)

theorem pagination_roundtrip_witness:
  "setItem POKEMON_PAGINATION_KEY (JSON_stringify (json_of_PaginationState zeroPagination))
      empty_storage
     = Inr (empty_storage\<lparr>items :=
         [(POKEMON_PAGINATION_KEY, JSON_stringify (json_of_PaginationState zeroPagination))]\<rparr>)
   \<and> Option.bind (loadPaginationState (savePaginationState zeroPagination empty_storage))
        as_PaginationState = Some zeroPagination"
proof -
  have w: "setItem POKEMON_PAGINATION_KEY (JSON_stringify (json_of_PaginationState zeroPagination))
      empty_storage
     = Inr (empty_storage\<lparr>items :=
         [(POKEMON_PAGINATION_KEY, JSON_stringify (json_of_PaginationState zeroPagination))]\<rparr>)"
    by (simp add: setItem_def empty_storage_def without_def storage_size_def zero_text_length
        POKEMON_PAGINATION_KEY_def del: JSON_stringify.simps)
  from pagination_roundtrip [OF w] w show ?thesis by blast
qed

text \<open>
  C9 as stated fails when the write throws: \<open>savePaginationState\<close> swallows the
  exception and the store keeps what it had. With the quota exhausted and no entry stored,
  \<open>loadPaginationState\<close> returns \<open>undefined\<close>.
\<close>

theorem failed_write_is_not_read_back:
  "loadPaginationState (savePaginationState zeroPagination full_storage) = None
   \<and> Option.bind (loadPaginationState (savePaginationState zeroPagination full_storage))
        as_PaginationState \<noteq> Some zeroPagination"
proof -
  have "setItem POKEMON_PAGINATION_KEY (JSON_stringify (json_of_PaginationState zeroPagination))
          full_storage = Inl QuotaExceededError"
    by (simp add: setItem_def full_storage_def without_def storage_size_def
        POKEMON_PAGINATION_KEY_def del: JSON_stringify.simps)
  then have "savePaginationState zeroPagination full_storage = full_storage"
    by (simp add: savePaginationState_def del: JSON_stringify.simps)
  then show ?thesis
    by (simp add: loadPaginationState_def getItem_def full_storage_def)
qed

text \<open>
  C10. \<open>handleRefresh\<close> leaves \<open>isInitialLoading\<close> as it was, while the list is
  emptied and the offset reset to 0; the same holds for the copy in pages/Home.tsx.
\<close>

theorem refresh_keeps_isInitialLoading:
  "isInitialLoading (fst (handleRefresh (s, st))) = isInitialLoading s
   \<and> allPokemon (fst (handleRefresh (s, st))) = []
   \<and> currentOffset (fst (handleRefresh (s, st))) = 0
   \<and> isInitialLoading (fst (Home_handleRefresh (s, st))) = isInitialLoading s
   \<and> allPokemon (fst (Home_handleRefresh (s, st))) = []
   \<and> currentOffset (fst (Home_handleRefresh (s, st))) = 0"
  by (simp add: handleRefresh_def Home_handleRefresh_def)

end
